theory Spec2Isabelle
  imports Main
begin

section \<open>Python values, exceptions and the portable literal model\<close>

text \<open>
  Exceptions are values. The first six constructors are what \<^verbatim>\<open>file.py\<close> and
  \<^verbatim>\<open>structured_dataset.py\<close> raise themselves, by a \<^verbatim>\<open>raise\<close> statement (the string is
  the f-string of the message as the source writes it) or by reading an attribute or a
  key that is not there. \<open>Raised\<close> is an exception that comes out of a collaborator (the
  storage client, a handler, a user's callable); the two modules catch nothing, so it
  travels up unchanged.
\<close>

datatype exn =
    AssertionError string
  | ValueError string
  | TypeError string
  | AttributeError string
  | NotImplementedError string
  | KeyError string
  | Raised nat

text \<open>\<^verbatim>\<open>flytekit.models\<close>: the simple scalar kinds, blob types, literal types, literals.\<close>

datatype simple_type =
  NONE | INTEGER | FLOAT | STRING | BOOLEAN | DATETIME | DURATION | BINARY | ERROR | STRUCT

datatype blob_dimensionality = SINGLE | MULTIPART

datatype blob_type = BlobType string blob_dimensionality

text \<open>
  A \<^verbatim>\<open>LiteralType\<close> has exactly one of its fields set; the constructor says which.
  A structured dataset type is its list of columns \<open>(name, literal_type)\<close>.
\<close>

datatype literal_type =
    Simple simple_type
  | CollectionType literal_type
  | MapValueType literal_type
  | BlobLT blob_type
  | StructuredDatasetLT "(string \<times> literal_type) list"
  | OtherLT

text \<open>
  \<open>Blob meta uri\<close> is \<^verbatim>\<open>Literal(scalar=Scalar(blob=Blob(metadata=BlobMetadata(type=meta), uri=uri)))\<close>;
  \<open>StructuredDatasetLit uri fmt cols\<close> is the literal of a structured dataset with
  \<^verbatim>\<open>metadata.format = fmt\<close> and \<^verbatim>\<open>metadata.structured_dataset_type.columns = cols\<close>.
\<close>

datatype literal =
    Blob blob_type string
  | StructuredDatasetLit string string "(string \<times> literal_type) list"
  | OtherLiteral

section \<open>Column types, dataframes and registry keys of the structured dataset transformer\<close>

text \<open>
  The keys of \<^verbatim>\<open>_SUPPORTED_TYPES\<close>, \<^verbatim>\<open>typing.List[t]\<close>, \<^verbatim>\<open>typing.Dict[k, v]\<close>, and any
  other type a user may write as a column type.
\<close>

datatype col_type =
    NpInt32 | NpInt64 | NpUint32 | NpUint64 | PyInt
  | PaInt8 | PaInt16 | PaInt32 | PaInt64
  | NpFloat32 | NpFloat64 | PyFloat | PaFloat16 | PaFloat32 | PaFloat64
  | NpBool | PyBool | PaBool
  | NpDatetime64 | PyDatetime | NpTimedelta64 | PyTimedelta
  | NpString | NpStr | NpObject | PyStr | PaString
  | ListOf col_type
  | DictOf col_type col_type
  | OtherColType nat

text \<open>
  A Python \<^verbatim>\<open>dict\<close> from column names to types keeps insertion order: an association
  list. \<^verbatim>\<open>d[k] = v\<close> replaces the value of a key already present, in place, and
  appends a new key.
\<close>

type_synonym 'v pydict = "(string \<times> 'v) list"

fun dict_setitem :: "'v pydict \<Rightarrow> string \<Rightarrow> 'v \<Rightarrow> 'v pydict" where
  "dict_setitem [] k v = [(k, v)]"
| "dict_setitem ((k', v') # d) k v =
     (if k' = k then (k, v) # d else (k', v') # dict_setitem d k v)"

datatype dataset_format = PARQUET | BIGQUERY

text \<open>
  What \<^verbatim>\<open>from_type\<close>, \<^verbatim>\<open>to_type\<close> and \<^verbatim>\<open>type(df)\<close> range over: a member of
  \<^verbatim>\<open>DatasetFormat\<close>, \<^verbatim>\<open>pa.Table\<close>, \<^verbatim>\<open>pd.DataFrame\<close>, \<^verbatim>\<open>StructuredDataset\<close> or one of its
  typed subclasses (with what \<^verbatim>\<open>columns()\<close> returns), or any other class.
\<close>

datatype dtype =
    FormatKey dataset_format
  | PaTable
  | PdDataFrame
  | StructuredDatasetT "col_type pydict"
  | PyClass nat

text \<open>
  Values that flow through the handlers. A \<^verbatim>\<open>pa.Table\<close> carries its schema; a
  \<^verbatim>\<open>pd.DataFrame\<close> carries the schema \<^verbatim>\<open>pa.Table.from_pandas\<close> gives it.
\<close>

datatype py_obj =
    PaTableV "col_type pydict"
  | PdDataFrameV "col_type pydict"
  | ObjV nat nat

text \<open>\<^verbatim>\<open>type(df)\<close>; \<open>ObjV c i\<close> is object \<open>i\<close> of the class \<open>PyClass c\<close>.\<close>

fun type_of :: "py_obj \<Rightarrow> dtype" where
  "type_of (PaTableV _) = PaTable"
| "type_of (PdDataFrameV _) = PdDataFrame"
| "type_of (ObjV c _) = PyClass c"

section \<open>File reference values\<close>

text \<open>
  The callable held in \<^verbatim>\<open>_downloader\<close>: the module's \<^verbatim>\<open>noop\<close>, the closure
  \<^verbatim>\<open>_downloader\<close> that \<^verbatim>\<open>to_python_value\<close> binds to \<open>uri\<close> and \<open>local_path\<close>, or a
  callable of the user's.
\<close>

datatype downloader = Noop | GetDataClosure string string | UserCallable nat

text \<open>The \<^verbatim>\<open>remote_path\<close> argument: \<^verbatim>\<open>None\<close>, \<^verbatim>\<open>False\<close> or a string.\<close>

datatype remote_path_arg = RemoteNone | RemoteFalse | RemoteStr string

text \<open>
  An instance of \<^verbatim>\<open>FlyteFile\<close>. \<open>extension\<close> is what \<^verbatim>\<open>extension()\<close> of the instance's
  class returns (the format tag lives in the class, not in the instance).
\<close>

record flyte_file =
  extension :: string
  path :: string
  downloader :: downloader
  downloaded :: bool
  remote_path :: remote_path_arg
  remote_source :: "string option"

text \<open>
  The declared or expected Python type: \<^verbatim>\<open>FlyteFile\<close> or a subclass of it (with what its
  \<^verbatim>\<open>extension()\<close> returns), \<^verbatim>\<open>pathlib.Path\<close> or a subclass of it, \<^verbatim>\<open>os.PathLike\<close>
  itself, or another class. \<^verbatim>\<open>pathlib.Path\<close> has no attribute \<^verbatim>\<open>extension\<close>; a subclass
  could define one, which is the \<open>string option\<close>.
\<close>

datatype py_type =
    FlyteFileT string
  | PathT "string option"
  | OsPathLikeT
  | OtherT "string option"

datatype py_value =
    NoneV
  | FlyteFileV flyte_file
  | PathV string
  | StrV string
  | OtherV

section \<open>Collaborators\<close>

text \<open>
  Every call that leaves the two modules is recorded, in order: the storage client
  (\<^verbatim>\<open>ctx.file_access\<close>), the logger, the outer \<^verbatim>\<open>TypeEngine\<close>, the handlers' methods (by
  handler identity), and each invocation of a file's \<^verbatim>\<open>_downloader\<close>.
\<close>

datatype call =
    GetRandomRemotePath "string option"
  | GetRandomLocalPath string
  | PutData string string bool
  | GetData string string bool
  | LoggerWarning
  | CallDownloader downloader
  | OverrideTransformer dtype
  | Retrieve nat string
  | Decode nat py_obj
  | Encode nat py_obj
  | Persist nat py_obj string

type_synonym trace = "call list"

text \<open>
  What the collaborators answer. Their code is outside these modules, so each is a
  parameter. An answer may depend on everything that happened before (the trace so
  far): two calls of \<^verbatim>\<open>get_random_remote_path\<close> need not return the same path, and a
  \<^verbatim>\<open>put_data\<close> may fail once and succeed later. \<open>is_file\<close> is \<^verbatim>\<open>pathlib.Path(p).is_file()\<close>;
  \<open>path_str\<close> is \<^verbatim>\<open>str(pathlib.Path(s))\<close>; \<open>user_callable\<close> is the outcome of calling
  the user's downloader number \<open>k\<close>. A collaborator that raises answers \<open>Some n\<close>
  (or \<open>Inl n\<close>): its exception number \<open>n\<close>, which the caller sees as \<open>Raised n\<close>.
\<close>

record flyte_context =
  is_remote :: "string \<Rightarrow> bool"
  get_random_remote_path :: "trace \<Rightarrow> string option \<Rightarrow> string"
  get_random_local_path :: "trace \<Rightarrow> string \<Rightarrow> string"
  put_data :: "trace \<Rightarrow> string \<Rightarrow> string \<Rightarrow> bool \<Rightarrow> nat option"
  get_data :: "trace \<Rightarrow> string \<Rightarrow> string \<Rightarrow> bool \<Rightarrow> nat option"
  is_file :: "trace \<Rightarrow> string \<Rightarrow> bool"
  path_str :: "string \<Rightarrow> string"
  user_callable :: "trace \<Rightarrow> nat \<Rightarrow> nat option"

definition starts_with :: "string \<Rightarrow> string \<Rightarrow> bool" where
  "starts_with p s = (take (length p) s = p)"

text \<open>
  The classification the docstring of \<^verbatim>\<open>FlyteFile\<close> gives for \<^verbatim>\<open>is_remote\<close>: a path is
  remote if it starts with \<^verbatim>\<open>s3://\<close>, \<^verbatim>\<open>gs://\<close>, \<^verbatim>\<open>http(s)://\<close>, or even \<^verbatim>\<open>file://\<close>.
\<close>

definition is_remote_by_scheme :: "string \<Rightarrow> bool" where
  "is_remote_by_scheme s =
     (starts_with ''s3://'' s \<or> starts_with ''gs://'' s \<or> starts_with ''http://'' s
      \<or> starts_with ''https://'' s \<or> starts_with ''file://'' s)"

section \<open>\<^verbatim>\<open>FlyteFile\<close>\<close>

text \<open>
  \<^verbatim>\<open>str.strip()\<close>, \<^verbatim>\<open>lstrip("~")\<close> and \<^verbatim>\<open>lstrip(".")\<close> on ASCII text. The white space of
  \<^verbatim>\<open>str.isspace\<close> below 128 is 9 to 13, 28 to 31 and 32.
\<close>

definition is_space :: "char \<Rightarrow> bool" where
  "is_space c = (let n = of_char c :: nat in (9 \<le> n \<and> n \<le> 13) \<or> (28 \<le> n \<and> n \<le> 32))"

definition lstrip :: "(char \<Rightarrow> bool) \<Rightarrow> string \<Rightarrow> string" where
  "lstrip p s = dropWhile p s"

definition strip :: "string \<Rightarrow> string" where
  "strip s = rev (dropWhile is_space (rev (dropWhile is_space s)))"

text \<open>
  \<^verbatim>\<open>FlyteFile.__class_getitem__\<close>, called on \<^verbatim>\<open>FlyteFile\<close> with a string: the result is the
  format tag of the class it returns (\<^verbatim>\<open>FlyteFile\<close> itself, tag \<open>''''\<close>, when nothing is
  left of the item).
\<close>

definition class_getitem :: "string \<Rightarrow> string" where
  "class_getitem item =
     lstrip (\<lambda>c. c = CHR ''.'') (lstrip (\<lambda>c. c = CHR ''~'') (strip item))"

text \<open>\<^verbatim>\<open>cls(path, downloader, remote_path)\<close> for a class with format tag \<open>ext\<close>.\<close>

definition init_flyte_file :: "string \<Rightarrow> string \<Rightarrow> downloader \<Rightarrow> remote_path_arg \<Rightarrow> flyte_file" where
  "init_flyte_file ext p d rp =
     \<lparr>extension = ext, path = p, downloader = d, downloaded = False,
      remote_path = rp, remote_source = None\<rparr>"

text \<open>
  Calling the \<^verbatim>\<open>_downloader\<close>: \<^verbatim>\<open>noop\<close> does nothing, the closure calls
  \<^verbatim>\<open>ctx.file_access.get_data(uri, local_path, is_multipart=False)\<close>, a user's callable
  answers as the context says. The invocation itself is recorded first.
\<close>

definition call_downloader :: "flyte_context \<Rightarrow> downloader \<Rightarrow> trace \<Rightarrow> exn option \<times> trace" where
  "call_downloader ctx d tr =
     (let tr1 = tr @ [CallDownloader d] in
      case d of
        Noop \<Rightarrow> (None, tr1)
      | GetDataClosure uri local_path \<Rightarrow>
          (map_option Raised (get_data ctx tr1 uri local_path False),
           tr1 @ [GetData uri local_path False])
      | UserCallable k \<Rightarrow> (map_option Raised (user_callable ctx tr1 k), tr1))"

text \<open>
  \<^verbatim>\<open>__fspath__\<close>: the result, the instance afterwards, the trace afterwards. When the
  downloader raises, the assignment to \<^verbatim>\<open>_downloaded\<close> is not reached.
\<close>

definition fspath :: "flyte_context \<Rightarrow> flyte_file \<Rightarrow> trace \<Rightarrow> (exn + string) \<times> flyte_file \<times> trace" where
  "fspath ctx self tr =
     (if \<not> downloaded self then
        (case call_downloader ctx (downloader self) tr of
           (Some e, tr') \<Rightarrow> (Inl e, self, tr')
         | (None, tr') \<Rightarrow> (Inr (path self), self\<lparr>downloaded := True\<rparr>, tr'))
      else (Inr (path self), self, tr))"

definition trigger_download :: "flyte_context \<Rightarrow> flyte_file \<Rightarrow> trace \<Rightarrow> exn option \<times> trace" where
  "trigger_download ctx self tr =
     (if downloader self \<noteq> Noop then call_downloader ctx (downloader self) tr
      else (Some (ValueError ''Attempting to trigger download on non-downloadable file {self}''), tr))"

text \<open>
  Dereferencing the same instance \<open>n\<close> times in a row: the results in order, the
  instance and the trace at the end. A caller that catches an exception may go on.
\<close>

fun fspath_times ::
  "flyte_context \<Rightarrow> nat \<Rightarrow> flyte_file \<Rightarrow> trace \<Rightarrow> (exn + string) list \<times> flyte_file \<times> trace" where
  "fspath_times ctx 0 self tr = ([], self, tr)"
| "fspath_times ctx (Suc n) self tr =
     (case fspath ctx self tr of
        (r, self', tr') \<Rightarrow>
          (case fspath_times ctx n self' tr' of
             (rs, self'', tr'') \<Rightarrow> (r # rs, self'', tr'')))"

section \<open>\<^verbatim>\<open>FlyteFilePathTransformer\<close>\<close>

text \<open>\<^verbatim>\<open>get_format(t)\<close> is \<^verbatim>\<open>t.extension()\<close>: an \<^verbatim>\<open>AttributeError\<close> on a class without it.\<close>

fun get_format :: "py_type \<Rightarrow> exn + string" where
  "get_format (FlyteFileT ext) = Inr ext"
| "get_format (PathT (Some ext)) = Inr ext"
| "get_format (PathT None) = Inl (AttributeError ''extension'')"
| "get_format OsPathLikeT = Inl (AttributeError ''extension'')"
| "get_format (OtherT (Some ext)) = Inr ext"
| "get_format (OtherT None) = Inl (AttributeError ''extension'')"

definition blob_type_of :: "string \<Rightarrow> blob_type" where
  "blob_type_of fmt = BlobType fmt SINGLE"

definition get_literal_type :: "py_type \<Rightarrow> exn + literal_type" where
  "get_literal_type t =
     (case get_format t of Inl e \<Rightarrow> Inl e | Inr fmt \<Rightarrow> Inr (BlobLT (blob_type_of fmt)))"

text \<open>\<^verbatim>\<open>issubclass(python_type, pathlib.Path) or python_type is os.PathLike\<close>\<close>

fun is_simpler_type :: "py_type \<Rightarrow> bool" where
  "is_simpler_type (PathT _) = True"
| "is_simpler_type OsPathLikeT = True"
| "is_simpler_type _ = False"

text \<open>\<^verbatim>\<open>python_val.remote_path or None\<close>\<close>

fun remote_path_or_none :: "remote_path_arg \<Rightarrow> string option" where
  "remote_path_or_none (RemoteStr s) = (if s = [] then None else Some s)"
| "remote_path_or_none _ = None"

text \<open>The last statement of \<^verbatim>\<open>to_literal\<close>: \<^verbatim>\<open>if should_upload: ... else: ...\<close>\<close>

definition upload_or_refer ::
  "flyte_context \<Rightarrow> blob_type \<Rightarrow> string \<Rightarrow> bool \<Rightarrow> string option \<Rightarrow> trace \<Rightarrow> (exn + literal) \<times> trace" where
  "upload_or_refer ctx meta source_path should_upload remote_path0 tr =
     (if should_upload then
        (let (remote_path', tr1) =
               (case remote_path0 of
                  None \<Rightarrow> (get_random_remote_path ctx tr (Some source_path),
                             tr @ [GetRandomRemotePath (Some source_path)])
                | Some rp \<Rightarrow> (rp, tr));
             tr2 = tr1 @ [PutData source_path remote_path' False]
         in case put_data ctx tr1 source_path remote_path' False of
              Some n \<Rightarrow> (Inl (Raised n), tr2)
            | None \<Rightarrow> (Inr (Blob meta remote_path'), tr2))
      else (Inr (Blob meta source_path), tr))"

text \<open>
  \<^verbatim>\<open>FlyteFilePathTransformer.to_literal(ctx, python_val, python_type, expected)\<close>;
  \<^verbatim>\<open>expected\<close> is never read. The statements are taken in the source's order: the
  \<^verbatim>\<open>None\<close> check, \<^verbatim>\<open>meta\<close> (which calls \<^verbatim>\<open>get_format\<close>), then the branch on the value.
\<close>

definition to_literal :: "flyte_context \<Rightarrow> py_value \<Rightarrow> py_type \<Rightarrow> trace \<Rightarrow> (exn + literal) \<times> trace" where
  "to_literal ctx python_val python_type tr =
     (if python_val = NoneV then
        (Inl (AssertionError ''None value cannot be converted to a file.''), tr)
      else
        (case get_format python_type of
           Inl e \<Rightarrow> (Inl e, tr)
         | Inr fmt \<Rightarrow>
            (let meta = blob_type_of fmt in
             case python_val of
               FlyteFileV v \<Rightarrow>
                 (let source_path = path v in
                  case remote_source v of
                    Some rs \<Rightarrow> (Inr (Blob meta rs), tr)
                  | None \<Rightarrow>
                     (let should_upload1 =
                            \<not> (remote_path v = RemoteFalse \<or> is_remote ctx source_path);
                          tr1 = (if is_simpler_type python_type then tr @ [LoggerWarning] else tr);
                          should_upload = (should_upload1 \<and> \<not> is_simpler_type python_type)
                      in upload_or_refer ctx meta source_path should_upload
                           (remote_path_or_none (remote_path v)) tr1))
             | PathV p \<Rightarrow>
                 (if \<not> is_file ctx tr p then
                    (Inl (ValueError ''Error converting pathlib.Path {python_val} because it's not a file.''), tr)
                  else
                    upload_or_refer ctx meta p
                      (\<not> (is_remote ctx p \<or> is_simpler_type python_type)) None tr)
             | StrV p \<Rightarrow>
                 (if \<not> is_file ctx tr p then
                    (Inl (ValueError ''Error converting {python_val} because it's not a file.''), tr)
                  else
                    upload_or_refer ctx meta p
                      (\<not> (is_remote ctx p \<or> is_simpler_type python_type)) None tr)
             | OtherV \<Rightarrow>
                 (Inl (AssertionError ''Expected FlyteFile or os.PathLike object, received {type(python_val)}''), tr)
             | NoneV \<Rightarrow>
                 (Inl (AssertionError ''None value cannot be converted to a file.''), tr))))"

text \<open>
  \<^verbatim>\<open>FlyteFilePathTransformer.to_python_value(ctx, lv, expected_python_type)\<close>. Reading
  \<^verbatim>\<open>lv.scalar.blob.uri\<close> of a literal that is no blob is an \<^verbatim>\<open>AttributeError\<close>.
  \<^verbatim>\<open>os.PathLike(uri)\<close> is a \<^verbatim>\<open>TypeError\<close>: the abstract class cannot be instantiated.
\<close>

fun is_flyte_file_type :: "py_type \<Rightarrow> bool" where
  "is_flyte_file_type (FlyteFileT _) = True"
| "is_flyte_file_type _ = False"

definition to_python_value ::
  "flyte_context \<Rightarrow> literal \<Rightarrow> py_type \<Rightarrow> trace \<Rightarrow> (exn + py_value) \<times> trace" where
  "to_python_value ctx lv expected_python_type tr =
     (case lv of
        Blob meta uri \<Rightarrow>
          (if is_simpler_type expected_python_type then
             (case expected_python_type of
                OsPathLikeT \<Rightarrow> (Inl (TypeError ''PathLike''), tr)
              | _ \<Rightarrow> (Inr (PathV (path_str ctx uri)), tr))
           else if \<not> is_flyte_file_type expected_python_type then
             (Inl (TypeError ''None of os.PathLike, pathlib.Path, or FlyteFile specified {expected_python_type}''), tr)
           else if \<not> is_remote ctx uri then
             (case get_format expected_python_type of
                Inl e \<Rightarrow> (Inl e, tr)
              | Inr ext \<Rightarrow> (Inr (FlyteFileV (init_flyte_file ext uri Noop RemoteNone)), tr))
           else
             (let local_path = get_random_local_path ctx tr uri;
                  tr1 = tr @ [GetRandomLocalPath uri]
              in case get_format expected_python_type of
                   Inl e \<Rightarrow> (Inl e, tr1)
                 | Inr expected_format \<Rightarrow>
                     (let ff = init_flyte_file (class_getitem expected_format) local_path
                                 (GetDataClosure uri local_path) RemoteNone
                      in (Inr (FlyteFileV (ff\<lparr>remote_source := Some uri\<rparr>)), tr1))))
      | _ \<Rightarrow> (Inl (AttributeError ''blob''), tr))"

section \<open>\<^verbatim>\<open>StructuredDataset\<close> and its handlers\<close>

fun name :: "dataset_format \<Rightarrow> string" where
  "name PARQUET = ''PARQUET''"
| "name BIGQUERY = ''BIGQUERY''"

text \<open>\<^verbatim>\<open>DatasetFormat.value_of\<close> compares with the member names.\<close>

definition value_of :: "string \<Rightarrow> exn + dataset_format" where
  "value_of v =
     (if v = ''PARQUET'' then Inr PARQUET
      else if v = ''BIGQUERY'' then Inr BIGQUERY
      else Inl (ValueError ''enum not found for {value}''))"

text \<open>
  An instance of \<^verbatim>\<open>StructuredDataset\<close>. \<open>sd_columns\<close> is what \<^verbatim>\<open>columns()\<close> of the
  instance's class returns.
\<close>

record structured_dataset =
  sd_columns :: "col_type pydict"
  sd_dataframe :: "py_obj option"
  sd_local_path :: "string option"
  sd_remote_path :: "string option"
  sd_file_format :: dataset_format

text \<open>
  \<^verbatim>\<open>StructuredDataset.__class_getitem__\<close> on \<^verbatim>\<open>StructuredDataset\<close> itself, with \<^verbatim>\<open>None\<close> or a
  dict: the \<^verbatim>\<open>columns()\<close> of the class it returns.
\<close>

fun sd_class_getitem :: "col_type pydict option \<Rightarrow> col_type pydict" where
  "sd_class_getitem None = []"
| "sd_class_getitem (Some cols) = (if length cols = 0 then [] else cols)"

text \<open>What \<^verbatim>\<open>StructuredDatasetTransformer.to_literal\<close> is given: an instance, or anything else.\<close>

datatype sd_python_val = SDV structured_dataset | DFV py_obj

text \<open>
  A handler object: its identity, its truth value \<^verbatim>\<open>bool(h)\<close>, what \<^verbatim>\<open>isinstance\<close> says
  for each of the four base classes, and what its methods do. The four base classes
  define neither \<^verbatim>\<open>__bool__\<close> nor \<^verbatim>\<open>__len__\<close>, so an instance is true unless its own
  class says otherwise (a handler that is also a container, empty at the time).
\<close>

record handler =
  handler_id :: nat
  bool_value :: bool
  is_retrieval :: bool
  is_persistence :: bool
  is_encoding :: bool
  is_decoding :: bool
  retrieve :: "string \<Rightarrow> nat + py_obj"
  persist :: "py_obj \<Rightarrow> string \<Rightarrow> nat option"
  encode :: "py_obj \<Rightarrow> nat + py_obj"
  decode :: "py_obj \<Rightarrow> nat + py_obj"

type_synonym registry = "dtype \<rightharpoonup> (dtype \<rightharpoonup> handler)"

text \<open>The class attributes of \<^verbatim>\<open>StructuredDatasetTransformer\<close> that \<^verbatim>\<open>register_handler\<close> mutates.\<close>

record transformer =
  DATASET_DECODING_HANDLERS :: registry
  DATASET_ENCODING_HANDLERS :: registry
  DATASET_PERSISTENCE_HANDLERS :: registry
  DATASET_RETRIEVAL_HANDLERS :: registry
  REGISTER_TYPES :: "dtype list"

definition initial_transformer :: transformer where
  "initial_transformer =
     \<lparr>DATASET_DECODING_HANDLERS = Map.empty, DATASET_ENCODING_HANDLERS = Map.empty,
      DATASET_PERSISTENCE_HANDLERS = Map.empty, DATASET_RETRIEVAL_HANDLERS = Map.empty,
      REGISTER_TYPES = []\<rparr>"

text \<open>The dict \<^verbatim>\<open>_SUPPORTED_TYPES\<close>.\<close>

fun supported_types :: "col_type \<Rightarrow> literal_type option" where
  "supported_types NpInt32 = Some (Simple INTEGER)"
| "supported_types NpInt64 = Some (Simple INTEGER)"
| "supported_types NpUint32 = Some (Simple INTEGER)"
| "supported_types NpUint64 = Some (Simple INTEGER)"
| "supported_types PyInt = Some (Simple INTEGER)"
| "supported_types PaInt8 = Some (Simple INTEGER)"
| "supported_types PaInt16 = Some (Simple INTEGER)"
| "supported_types PaInt32 = Some (Simple INTEGER)"
| "supported_types PaInt64 = Some (Simple INTEGER)"
| "supported_types NpFloat32 = Some (Simple FLOAT)"
| "supported_types NpFloat64 = Some (Simple FLOAT)"
| "supported_types PyFloat = Some (Simple FLOAT)"
| "supported_types PaFloat16 = Some (Simple FLOAT)"
| "supported_types PaFloat32 = Some (Simple FLOAT)"
| "supported_types PaFloat64 = Some (Simple FLOAT)"
| "supported_types NpBool = Some (Simple BOOLEAN)"
| "supported_types PyBool = Some (Simple BOOLEAN)"
| "supported_types PaBool = Some (Simple BOOLEAN)"
| "supported_types NpDatetime64 = Some (Simple DATETIME)"
| "supported_types PyDatetime = Some (Simple DATETIME)"
| "supported_types NpTimedelta64 = Some (Simple DURATION)"
| "supported_types PyTimedelta = Some (Simple DURATION)"
| "supported_types NpString = Some (Simple STRING)"
| "supported_types NpStr = Some (Simple STRING)"
| "supported_types NpObject = Some (Simple STRING)"
| "supported_types PyStr = Some (Simple STRING)"
| "supported_types PaString = Some (Simple STRING)"
| "supported_types (ListOf _) = None"
| "supported_types (DictOf _ _) = None"
| "supported_types (OtherColType _) = None"

text \<open>\<^verbatim>\<open>_get_dataset_column_literal_type\<close>\<close>

fun get_dataset_column_literal_type :: "col_type \<Rightarrow> exn + literal_type" where
  "get_dataset_column_literal_type t =
     (case supported_types t of
        Some lt \<Rightarrow> Inr lt
      | None \<Rightarrow>
          (case t of
             ListOf a \<Rightarrow>
               (case get_dataset_column_literal_type a of
                  Inl e \<Rightarrow> Inl e | Inr lt \<Rightarrow> Inr (CollectionType lt))
           | DictOf k v \<Rightarrow>
               (case get_dataset_column_literal_type v of
                  Inl e \<Rightarrow> Inl e | Inr lt \<Rightarrow> Inr (MapValueType lt))
           | _ \<Rightarrow> Inl (AssertionError ''type {t} is currently not supported by StructuredDataset'')))"

text \<open>
  The loop \<^verbatim>\<open>for k, v in t.columns().items(): ... converted_cols.append(...)\<close>, which
  stops at the first column type that is not supported.
\<close>

fun convert_columns ::
  "col_type pydict \<Rightarrow> (string \<times> literal_type) list \<Rightarrow> exn + (string \<times> literal_type) list" where
  "convert_columns [] converted_cols = Inr converted_cols"
| "convert_columns ((k, v) # items) converted_cols =
     (case get_dataset_column_literal_type v of
        Inl e \<Rightarrow> Inl e
      | Inr lt \<Rightarrow> convert_columns items (converted_cols @ [(k, lt)]))"

text \<open>
  \<^verbatim>\<open>_get_dataset_type(t)\<close>. \<^verbatim>\<open>issubclass\<close> of something that is not a class (a member of
  \<^verbatim>\<open>DatasetFormat\<close>) is a \<^verbatim>\<open>TypeError\<close>.
\<close>

fun get_dataset_type :: "dtype \<Rightarrow> exn + (string \<times> literal_type) list" where
  "get_dataset_type (StructuredDatasetT cols) = convert_columns cols []"
| "get_dataset_type (FormatKey _) = Inl (TypeError ''issubclass() arg 1 must be a class'')"
| "get_dataset_type _ = Inr []"

text \<open>The list comprehensions over a schema index \<^verbatim>\<open>_SUPPORTED_TYPES\<close> directly.\<close>

fun schema_columns :: "col_type pydict \<Rightarrow> exn + (string \<times> literal_type) list" where
  "schema_columns [] = Inr []"
| "schema_columns ((n, t) # rest) =
     (case supported_types t of
        None \<Rightarrow> Inl (KeyError ''_SUPPORTED_TYPES'')
      | Some lt \<Rightarrow>
          (case schema_columns rest of Inl e \<Rightarrow> Inl e | Inr cs \<Rightarrow> Inr ((n, lt) # cs)))"

text \<open>\<^verbatim>\<open>_get_dataset_type_from_value\<close>\<close>

fun get_dataset_type_from_value :: "sd_python_val \<Rightarrow> exn + (string \<times> literal_type) list" where
  "get_dataset_type_from_value (DFV (PaTableV schema)) = schema_columns schema"
| "get_dataset_type_from_value (DFV (PdDataFrameV schema)) = schema_columns schema"
| "get_dataset_type_from_value (SDV v) = convert_columns (sd_columns v) []"
| "get_dataset_type_from_value (DFV (ObjV _ _)) = Inr []"

definition sd_get_literal_type :: "dtype \<Rightarrow> exn + literal_type" where
  "sd_get_literal_type t =
     (case get_dataset_type t of Inl e \<Rightarrow> Inl e | Inr cols \<Rightarrow> Inr (StructuredDatasetLT cols))"

text \<open>\<^verbatim>\<open>_get_intermediate_format\<close> and \<^verbatim>\<open>_get_handler\<close>\<close>

definition get_intermediate_format :: dtype where
  "get_intermediate_format = PaTable"

definition get_handler :: "dtype \<Rightarrow> dtype \<Rightarrow> registry \<Rightarrow> handler option" where
  "get_handler from_type to_type handlers =
     (case handlers from_type of
        None \<Rightarrow> None
      | Some inner \<Rightarrow> inner to_type)"

text \<open>
  The truth value of what \<^verbatim>\<open>_get_handler\<close> returned, as \<^verbatim>\<open>if retrieve_handler:\<close> reads
  it: \<^verbatim>\<open>None\<close> is false, a handler is as true as its \<^verbatim>\<open>bool\<close> says.
\<close>

fun handler_true :: "handler option \<Rightarrow> bool" where
  "handler_true None = False"
| "handler_true (Some h) = bool_value h"

text \<open>
  \<^verbatim>\<open>if from_type not in registry: registry[from_type] = {}\<close> and then
  \<^verbatim>\<open>registry[from_type][to_type] = h\<close>
\<close>

definition registry_set :: "registry \<Rightarrow> dtype \<Rightarrow> dtype \<Rightarrow> handler \<Rightarrow> registry" where
  "registry_set reg from_type to_type h =
     (let inner = (case reg from_type of None \<Rightarrow> Map.empty | Some m \<Rightarrow> m)
      in reg(from_type \<mapsto> inner(to_type \<mapsto> h)))"

text \<open>
  \<^verbatim>\<open>if t not in self._REGISTER_TYPES: append; TypeEngine.override_transformer(self, t)\<close>
\<close>

definition note_type :: "dtype \<Rightarrow> dtype list \<times> trace \<Rightarrow> dtype list \<times> trace" where
  "note_type t s =
     (case s of (types, tr) \<Rightarrow>
        if t \<notin> set types then (types @ [t], tr @ [OverrideTransformer t]) else (types, tr))"

text \<open>
  \<^verbatim>\<open>register_handler(from_type, to_type, h)\<close>: the exception if one is raised, the class
  attributes afterwards, the trace afterwards.
\<close>

definition register_handler ::
  "dtype \<Rightarrow> dtype \<Rightarrow> handler \<Rightarrow> transformer \<Rightarrow> trace \<Rightarrow> exn option \<times> transformer \<times> trace" where
  "register_handler from_type to_type h self tr =
     (case note_type to_type (note_type from_type (REGISTER_TYPES self, tr)) of
        (types, tr') \<Rightarrow>
          (let self1 = self\<lparr>REGISTER_TYPES := types\<rparr> in
           if is_retrieval h then
             (None, self1\<lparr>DATASET_RETRIEVAL_HANDLERS :=
                registry_set (DATASET_RETRIEVAL_HANDLERS self1) from_type to_type h\<rparr>, tr')
           else if is_persistence h then
             (None, self1\<lparr>DATASET_PERSISTENCE_HANDLERS :=
                registry_set (DATASET_PERSISTENCE_HANDLERS self1) from_type to_type h\<rparr>, tr')
           else if is_encoding h then
             (None, self1\<lparr>DATASET_ENCODING_HANDLERS :=
                registry_set (DATASET_ENCODING_HANDLERS self1) from_type to_type h\<rparr>, tr')
           else if is_decoding h then
             (None, self1\<lparr>DATASET_DECODING_HANDLERS :=
                registry_set (DATASET_DECODING_HANDLERS self1) from_type to_type h\<rparr>, tr')
           else (Some (TypeError ''We don't support this type of handlers {h}''), self1, tr')))"

text \<open>
  A run of registrations, one after the other, whatever each one returns or raises
  (a caller may catch the \<^verbatim>\<open>TypeError\<close> and go on).
\<close>

fun register_all ::
  "(dtype \<times> dtype \<times> handler) list \<Rightarrow> transformer \<Rightarrow> trace \<Rightarrow> transformer \<times> trace" where
  "register_all [] self tr = (self, tr)"
| "register_all ((from_type, to_type, h) # rest) self tr =
     (case register_handler from_type to_type h self tr of
        (_, self', tr') \<Rightarrow> register_all rest self' tr')"

text \<open>The types \<^verbatim>\<open>TypeEngine.override_transformer\<close> was called with, in order.\<close>

fun overrides :: "trace \<Rightarrow> dtype list" where
  "overrides [] = []"
| "overrides (OverrideTransformer t # tr) = t # overrides tr"
| "overrides (_ # tr) = overrides tr"

text \<open>
  \<^verbatim>\<open>download(from_type, to_type, uri)\<close>. Both tests are on the truth value of the handler
  found, not on whether one was found. \<open>the\<close> is applied only to a handler that is
  true, hence there.
\<close>

definition download ::
  "transformer \<Rightarrow> dtype \<Rightarrow> dtype \<Rightarrow> string \<Rightarrow> trace \<Rightarrow> (exn + py_obj) \<times> trace" where
  "download self from_type to_type uri tr =
     (let retrieve_handler = get_handler from_type to_type (DATASET_RETRIEVAL_HANDLERS self) in
      if handler_true retrieve_handler then
        (case retrieve (the retrieve_handler) uri of
           Inl n \<Rightarrow> (Inl (Raised n), tr @ [Retrieve (handler_id (the retrieve_handler)) uri])
         | Inr v \<Rightarrow> (Inr v, tr @ [Retrieve (handler_id (the retrieve_handler)) uri]))
      else
        (let retrieve_handler =
               get_handler from_type get_intermediate_format (DATASET_RETRIEVAL_HANDLERS self);
             decoding_handler =
               get_handler get_intermediate_format to_type (DATASET_DECODING_HANDLERS self)
         in if handler_true retrieve_handler \<and> handler_true decoding_handler then
              (let tr1 = tr @ [Retrieve (handler_id (the retrieve_handler)) uri] in
               case retrieve (the retrieve_handler) uri of
                 Inl n \<Rightarrow> (Inl (Raised n), tr1)
               | Inr table \<Rightarrow>
                   (let tr2 = tr1 @ [Decode (handler_id (the decoding_handler)) table] in
                    case decode (the decoding_handler) table of
                      Inl n \<Rightarrow> (Inl (Raised n), tr2)
                    | Inr v \<Rightarrow> (Inr v, tr2)))
            else
              (Inl (ValueError ''Not yet implemented download data {to_type} from {from_type}''),
               tr)))"

text \<open>\<^verbatim>\<open>upload(from_type, to_type, uri, df)\<close>, with the same two truth tests.\<close>

definition upload ::
  "transformer \<Rightarrow> dtype \<Rightarrow> dtype \<Rightarrow> string \<Rightarrow> py_obj \<Rightarrow> trace \<Rightarrow> exn option \<times> trace" where
  "upload self from_type to_type uri df tr =
     (let persist_handler = get_handler from_type to_type (DATASET_PERSISTENCE_HANDLERS self) in
      if handler_true persist_handler then
        (map_option Raised (persist (the persist_handler) df uri),
         tr @ [Persist (handler_id (the persist_handler)) df uri])
      else
        (let encoding_handler =
               get_handler from_type get_intermediate_format (DATASET_ENCODING_HANDLERS self);
             persist_handler =
               get_handler get_intermediate_format to_type (DATASET_PERSISTENCE_HANDLERS self)
         in if handler_true encoding_handler \<and> handler_true persist_handler then
              (let tr1 = tr @ [Encode (handler_id (the encoding_handler)) df] in
               case encode (the encoding_handler) df of
                 Inl n \<Rightarrow> (Some (Raised n), tr1)
               | Inr table \<Rightarrow>
                   (map_option Raised (persist (the persist_handler) table uri),
                    tr1 @ [Persist (handler_id (the persist_handler)) table uri]))
            else
              (Some (NotImplementedError
                 ''Not yet implemented upload data {to_type} from {from_type}''), tr)))"

text \<open>Python's truth value of an optional string: \<^verbatim>\<open>None\<close> and \<^verbatim>\<open>""\<close> are false.\<close>

fun truthy :: "string option \<Rightarrow> bool" where
  "truthy None = False"
| "truthy (Some s) = (s \<noteq> [])"

text \<open>The \<^verbatim>\<open>return Literal(...)\<close> at the end of \<^verbatim>\<open>to_literal\<close>.\<close>

definition make_literal ::
  "string \<Rightarrow> dataset_format \<Rightarrow> sd_python_val \<Rightarrow> trace \<Rightarrow> (exn + literal) \<times> trace" where
  "make_literal uri file_format python_val tr =
     (case get_dataset_type_from_value python_val of
        Inl e \<Rightarrow> (Inl e, tr)
      | Inr cols \<Rightarrow> (Inr (StructuredDatasetLit uri (name file_format) cols), tr))"

text \<open>
  \<^verbatim>\<open>StructuredDatasetTransformer.to_literal(ctx, python_val, python_type, expected)\<close>;
  neither \<^verbatim>\<open>python_type\<close> nor \<^verbatim>\<open>expected\<close> is read.
\<close>

definition sd_to_literal ::
  "flyte_context \<Rightarrow> transformer \<Rightarrow> sd_python_val \<Rightarrow> trace \<Rightarrow> (exn + literal) \<times> trace" where
  "sd_to_literal ctx self python_val tr =
     (case python_val of
        SDV v \<Rightarrow>
          (let (uri, tr1) =
                 (if truthy (sd_remote_path v) then (the (sd_remote_path v), tr)
                  else (get_random_remote_path ctx tr None, tr @ [GetRandomRemotePath None]));
               df = sd_dataframe v;
               file_format = sd_file_format v;
               (raised, tr2) =
                 (if truthy (sd_local_path v) then
                    (map_option Raised (put_data ctx tr1 (the (sd_local_path v)) uri False),
                     tr1 @ [PutData (the (sd_local_path v)) uri False])
                  else
                    (case df of
                       Some d \<Rightarrow> upload self (type_of d) (FormatKey file_format) uri d tr1
                     | None \<Rightarrow> (None, tr1)))
           in case raised of
                Some e \<Rightarrow> (Inl e, tr2)
              | None \<Rightarrow> make_literal uri file_format python_val tr2)
      | DFV d \<Rightarrow>
          (let uri = get_random_remote_path ctx tr None;
               tr1 = tr @ [GetRandomRemotePath None];
               file_format = PARQUET
           in case upload self (type_of d) (FormatKey file_format) uri d tr1 of
                (Some e, tr2) \<Rightarrow> (Inl e, tr2)
              | (None, tr2) \<Rightarrow> make_literal uri file_format python_val tr2))"

text \<open>\<^verbatim>\<open>StructuredDatasetTransformer.to_python_value(ctx, lv, expected_python_type)\<close>\<close>

definition sd_to_python_value ::
  "transformer \<Rightarrow> literal \<Rightarrow> dtype \<Rightarrow> trace \<Rightarrow> (exn + sd_python_val) \<times> trace" where
  "sd_to_python_value self lv expected_python_type tr =
     (case lv of
        StructuredDatasetLit uri format cols \<Rightarrow>
          (case value_of format of
             Inl e \<Rightarrow> (Inl e, tr)
           | Inr fmt \<Rightarrow>
               (case expected_python_type of
                  StructuredDatasetT columns \<Rightarrow>
                    (Inr (SDV \<lparr>sd_columns = columns, sd_dataframe = None, sd_local_path = None,
                               sd_remote_path = Some uri, sd_file_format = fmt\<rparr>), tr)
                | FormatKey _ \<Rightarrow> (Inl (TypeError ''issubclass() arg 1 must be a class''), tr)
                | _ \<Rightarrow>
                    (case download self (FormatKey fmt) expected_python_type uri tr of
                       (Inl e, tr') \<Rightarrow> (Inl e, tr')
                     | (Inr v, tr') \<Rightarrow> (Inr (DFV v), tr'))))
      | _ \<Rightarrow> (Inl (AttributeError ''structured_dataset''), tr))"

text \<open>The \<^verbatim>\<open>if\<close>/\<^verbatim>\<open>elif\<close> chain of \<^verbatim>\<open>guess_python_type\<close> on \<^verbatim>\<open>literal_type.simple\<close>.\<close>

fun guess_column :: "literal_type \<Rightarrow> col_type option" where
  "guess_column (Simple INTEGER) = Some PyInt"
| "guess_column (Simple FLOAT) = Some PyFloat"
| "guess_column (Simple STRING) = Some PyStr"
| "guess_column (Simple DATETIME) = Some PyDatetime"
| "guess_column (Simple DURATION) = Some PyTimedelta"
| "guess_column (Simple BOOLEAN) = Some PyBool"
| "guess_column _ = None"

fun guess_columns ::
  "(string \<times> literal_type) list \<Rightarrow> col_type pydict \<Rightarrow> exn + col_type pydict" where
  "guess_columns [] columns = Inr columns"
| "guess_columns ((column_name, lt) # rest) columns =
     (case guess_column lt of
        None \<Rightarrow> Inl (ValueError ''Unknown structured dataset column type {literal_column}'')
      | Some t \<Rightarrow> guess_columns rest (dict_setitem columns column_name t))"

text \<open>
  \<^verbatim>\<open>guess_python_type(literal_type)\<close>: the class \<^verbatim>\<open>StructuredDataset[columns]\<close>. The
  first test, \<^verbatim>\<open>if not literal_type.structured_dataset_type\<close>, is true exactly when that
  field is \<^verbatim>\<open>None\<close>.
\<close>

definition guess_python_type :: "literal_type \<Rightarrow> exn + dtype" where
  "guess_python_type literal_type =
     (case literal_type of
        StructuredDatasetLT cols \<Rightarrow>
          (case guess_columns cols [] of
             Inl e \<Rightarrow> Inl e
           | Inr columns \<Rightarrow> Inr (StructuredDatasetT (sd_class_getitem (Some columns))))
      | _ \<Rightarrow> Inl (ValueError ''Cannot reverse {literal_type}''))"

section \<open>Notions the statements use\<close>

text \<open>How an exception of a collaborator reaches the caller: unchanged, as \<open>Raised\<close>.\<close>

definition propagate :: "nat + 'a \<Rightarrow> exn + 'a" where
  "propagate r = (case r of Inl n \<Rightarrow> Inl (Raised n) | Inr v \<Rightarrow> Inr v)"

text \<open>The \<^verbatim>\<open>ValueError\<close> at the end of \<^verbatim>\<open>download\<close>.\<close>

definition unsupported_download :: exn where
  "unsupported_download = ValueError ''Not yet implemented download data {to_type} from {from_type}''"

text \<open>
  The types among \<open>from_type\<close>, \<open>to_type\<close> that are not in the list of seen types, in the
  order \<^verbatim>\<open>register_handler\<close> meets them.
\<close>

definition new_types :: "dtype \<Rightarrow> dtype \<Rightarrow> dtype list \<Rightarrow> dtype list" where
  "new_types from_type to_type seen =
     (if from_type \<in> set seen then [] else [from_type])
     @ (if to_type \<in> set seen \<or> to_type = from_type then [] else [to_type])"

text \<open>Every type a run of registrations mentions.\<close>

fun mentioned :: "(dtype \<times> dtype \<times> handler) list \<Rightarrow> dtype list" where
  "mentioned [] = []"
| "mentioned ((from_type, to_type, h) # rest) = from_type # to_type # mentioned rest"

text \<open>
  The six canonical column types \<^verbatim>\<open>int\<close>, \<^verbatim>\<open>float\<close>, \<^verbatim>\<open>str\<close>, \<^verbatim>\<open>bool\<close>,
  \<^verbatim>\<open>datetime.datetime\<close>, \<^verbatim>\<open>datetime.timedelta\<close>, and the six simple scalar kinds.
\<close>

definition canonical_types :: "col_type set" where
  "canonical_types = {PyInt, PyFloat, PyStr, PyBool, PyDatetime, PyTimedelta}"

definition six_simple_kinds :: "literal_type set" where
  "six_simple_kinds = Simple ` {INTEGER, FLOAT, STRING, BOOLEAN, DATETIME, DURATION}"

text \<open>How often a \<^verbatim>\<open>_downloader\<close> was invoked in a trace.\<close>

fun is_downloader_call :: "call \<Rightarrow> bool" where
  "is_downloader_call (CallDownloader _) = True"
| "is_downloader_call _ = False"

definition downloader_calls :: "trace \<Rightarrow> nat" where
  "downloader_calls tr = length (filter is_downloader_call tr)"

text \<open>
  A format tag that \<^verbatim>\<open>FlyteFile[...]\<close> leaves as it is: empty, or with no white space at
  either end and neither \<^verbatim>\<open>~\<close> nor \<^verbatim>\<open>.\<close> in front.
\<close>

definition tag_normal :: "string \<Rightarrow> bool" where
  "tag_normal ext =
     (ext = [] \<or>
      (\<not> is_space (hd ext) \<and> \<not> is_space (last ext)
       \<and> hd ext \<noteq> CHR ''~'' \<and> hd ext \<noteq> CHR ''.''))"

section \<open>Concrete collaborators and values\<close>

text \<open>
  A storage client that classifies by scheme, mints a new path at every call, and
  never fails; a file system whose only regular file is \<^verbatim>\<open>/tmp/data.csv\<close>.
\<close>

definition example_ctx :: flyte_context where
  "example_ctx =
     \<lparr>is_remote = is_remote_by_scheme,
      get_random_remote_path =
        (\<lambda>tr hint. ''s3://raw-output/'' @ replicate (Suc (length tr)) (CHR ''r'')),
      get_random_local_path =
        (\<lambda>tr uri. ''/tmp/flyte/'' @ replicate (Suc (length tr)) (CHR ''l'')),
      put_data = (\<lambda>tr src dst multipart. None),
      get_data = (\<lambda>tr src dst multipart. None),
      is_file = (\<lambda>tr p. p = ''/tmp/data.csv''),
      path_str = (\<lambda>s. s),
      user_callable = (\<lambda>tr k. None)\<rparr>"

text \<open>The same, with a store whose \<^verbatim>\<open>get_data\<close> always raises.\<close>

definition failing_ctx :: flyte_context where
  "failing_ctx = example_ctx\<lparr>get_data := (\<lambda>tr src dst multipart. Some 5)\<rparr>"

text \<open>What decoding \<^verbatim>\<open>Blob{uri: "s3://b/k", format: "csv"}\<close> as \<^verbatim>\<open>FlyteFile["csv"]\<close> returns.\<close>

definition decoded_file :: flyte_file where
  "decoded_file =
     \<lparr>extension = ''csv'', path = ''/tmp/flyte/l'',
      downloader = GetDataClosure ''s3://b/k'' ''/tmp/flyte/l'', downloaded = False,
      remote_path = RemoteNone, remote_source = Some ''s3://b/k''\<rparr>"

text \<open>
  Three handlers: Parquet straight to pandas, Parquet to an Arrow table, an Arrow table
  to pandas; and an object that is none of the four kinds of handler. A method the
  object does not have raises.
\<close>

definition parquet_to_pandas :: handler where
  "parquet_to_pandas =
     \<lparr>handler_id = 1, bool_value = True, is_retrieval = True, is_persistence = False, is_encoding = False,
      is_decoding = False,
      retrieve = (\<lambda>uri. Inr (PdDataFrameV [(''a'', PaInt64)])),
      persist = (\<lambda>df uri. Some 0), encode = (\<lambda>df. Inl 0), decode = (\<lambda>t. Inl 0)\<rparr>"

definition parquet_to_arrow :: handler where
  "parquet_to_arrow =
     \<lparr>handler_id = 2, bool_value = True, is_retrieval = True, is_persistence = False, is_encoding = False,
      is_decoding = False,
      retrieve = (\<lambda>uri. Inr (PaTableV [(''a'', PaInt64)])),
      persist = (\<lambda>df uri. Some 0), encode = (\<lambda>df. Inl 0), decode = (\<lambda>t. Inl 0)\<rparr>"

definition arrow_to_pandas :: handler where
  "arrow_to_pandas =
     \<lparr>handler_id = 3, bool_value = True, is_retrieval = False, is_persistence = False, is_encoding = False,
      is_decoding = True,
      retrieve = (\<lambda>uri. Inl 0),
      persist = (\<lambda>df uri. Some 0), encode = (\<lambda>df. Inl 0),
      decode = (\<lambda>t. case t of PaTableV schema \<Rightarrow> Inr (PdDataFrameV schema) | _ \<Rightarrow> Inl 1)\<rparr>"

definition not_a_handler :: handler where
  "not_a_handler =
     \<lparr>handler_id = 4, bool_value = True, is_retrieval = False, is_persistence = False, is_encoding = False,
      is_decoding = False,
      retrieve = (\<lambda>uri. Inl 0),
      persist = (\<lambda>df uri. Some 0), encode = (\<lambda>df. Inl 0), decode = (\<lambda>t. Inl 0)\<rparr>"

text \<open>
  A retrieval handler that is also an empty container: \<^verbatim>\<open>isinstance\<close> of
  \<^verbatim>\<open>DatasetRetrievalHandler\<close>, with \<^verbatim>\<open>__len__\<close> returning 0, so that \<^verbatim>\<open>bool\<close> of it is false.
\<close>

definition empty_container_handler :: handler where
  "empty_container_handler =
     \<lparr>handler_id = 5, bool_value = False, is_retrieval = True, is_persistence = False,
      is_encoding = False, is_decoding = False,
      retrieve = (\<lambda>uri. Inr (PdDataFrameV [(''a'', PaInt64)])),
      persist = (\<lambda>df uri. Some 0), encode = (\<lambda>df. Inl 0), decode = (\<lambda>t. Inl 0)\<rparr>"

definition falsy_transformer :: transformer where
  "falsy_transformer =
     fst (snd (register_handler (FormatKey PARQUET) PdDataFrame empty_container_handler
                 initial_transformer []))"

text \<open>The transformer after registering the direct handler, and after the two-hop pair.\<close>

definition direct_transformer :: transformer where
  "direct_transformer =
     fst (snd (register_handler (FormatKey PARQUET) PdDataFrame parquet_to_pandas
                 initial_transformer []))"

definition two_hop_transformer :: transformer where
  "two_hop_transformer =
     fst (register_all
            [(FormatKey PARQUET, PaTable, parquet_to_arrow),
             (PaTable, PdDataFrame, arrow_to_pandas)] initial_transformer [])"

section \<open>Facts about the concrete collaborators\<close>

lemma remote_examples:
  "is_remote example_ctx ''s3://bucket/key.csv''"
  "is_remote example_ctx ''file:///tmp/data.csv''"
  "is_remote example_ctx ''s3://b/k''"
  "\<not> is_remote example_ctx ''/tmp/data.csv''"
  by (simp_all add: example_ctx_def is_remote_by_scheme_def starts_with_def)

lemma is_file_examples:
  "is_file example_ctx tr ''/tmp/data.csv''"
  "\<not> is_file example_ctx tr ''s3://bucket/key.csv''"
  "\<not> is_file example_ctx tr ''file:///tmp/data.csv''"
  by (simp_all add: example_ctx_def)

lemma minted_examples:
  "get_random_remote_path example_ctx [] hint = ''s3://raw-output/r''"
  "get_random_local_path example_ctx [] uri = ''/tmp/flyte/l''"
  by (simp_all add: example_ctx_def)

lemma class_getitem_examples:
  "class_getitem ''csv'' = ''csv''"
  "class_getitem ''.~csv'' = ''~csv''"
  "class_getitem ''~csv'' = ''csv''"
  by (simp_all add: class_getitem_def lstrip_def strip_def is_space_def)

section \<open>Encoding a file: \<^verbatim>\<open>FlyteFilePathTransformer.to_literal\<close>\<close>

subsection \<open>A plain string or path\<close>

lemma to_literal_str_not_a_file:
  "\<not> is_file ctx tr u \<Longrightarrow>
   to_literal ctx (StrV u) (FlyteFileT ext) tr =
     (Inl (ValueError ''Error converting {python_val} because it's not a file.''), tr)"
  by (simp add: to_literal_def)

lemma to_literal_str_remote_file:
  "is_file ctx tr u \<Longrightarrow> is_remote ctx u \<Longrightarrow>
   to_literal ctx (StrV u) (FlyteFileT ext) tr = (Inr (Blob (blob_type_of ext) u), tr)"
  by (simp add: to_literal_def upload_or_refer_def)

text \<open>
  Claim C1 says that a remote URI given as a plain string, with declared type
  \<^verbatim>\<open>FlyteFile\<close>, is encoded as a blob with that very URI, with no \<^verbatim>\<open>put_data\<close>. The code
  asks \<^verbatim>\<open>pathlib.Path(python_val).is_file()\<close> first, before it looks at \<^verbatim>\<open>is_remote\<close>:
  for \<^verbatim>\<open>s3://bucket/key.csv\<close> and for \<^verbatim>\<open>file:///tmp/data.csv\<close>, both remote and neither
  a regular file for \<^verbatim>\<open>pathlib\<close>, it raises \<^verbatim>\<open>ValueError\<close> and returns no literal.
\<close>

theorem to_literal_remote_string_raises:
  "is_remote example_ctx ''s3://bucket/key.csv''
   \<and> to_literal example_ctx (StrV ''s3://bucket/key.csv'') (FlyteFileT '''') [] =
       (Inl (ValueError ''Error converting {python_val} because it's not a file.''), [])
   \<and> is_remote example_ctx ''file:///tmp/data.csv''
   \<and> to_literal example_ctx (StrV ''file:///tmp/data.csv'') (FlyteFileT '''') [] =
       (Inl (ValueError ''Error converting {python_val} because it's not a file.''), [])"
  by (simp add: remote_examples is_file_examples to_literal_str_not_a_file)

text \<open>
  Claim C9: for a path \<open>p\<close> (a string or a \<^verbatim>\<open>pathlib.Path\<close>) that names an existing
  regular file and is not remote, encoding with declared type \<^verbatim>\<open>FlyteFile\<close> mints one
  remote path and makes exactly one call \<^verbatim>\<open>put_data(p, uri, is_multipart=False)\<close> with
  it, and nothing else; when that call returns, the result is the blob whose URI is the
  minted path (an exception of the store is not caught and travels up).
\<close>

theorem to_literal_local_file_uploads_once:
  assumes "python_val = StrV p \<or> python_val = PathV p"
    and "is_file ctx tr p" and "\<not> is_remote ctx p"
  shows "snd (to_literal ctx python_val (FlyteFileT ext) tr) =
           tr @ [GetRandomRemotePath (Some p),
                 PutData p (get_random_remote_path ctx tr (Some p)) False]
         \<and> (put_data ctx (tr @ [GetRandomRemotePath (Some p)]) p
               (get_random_remote_path ctx tr (Some p)) False = None \<longrightarrow>
             fst (to_literal ctx python_val (FlyteFileT ext) tr) =
               Inr (Blob (BlobType ext SINGLE) (get_random_remote_path ctx tr (Some p))))"
  using assms
  by (auto simp: to_literal_def upload_or_refer_def blob_type_of_def Let_def
           split: option.splits)

theorem to_literal_local_file_uploads_once_witness:
  "to_literal example_ctx (StrV ''/tmp/data.csv'') (FlyteFileT ''csv'') [] =
     (Inr (Blob (BlobType ''csv'' SINGLE) ''s3://raw-output/r''),
      [GetRandomRemotePath (Some ''/tmp/data.csv''),
       PutData ''/tmp/data.csv'' ''s3://raw-output/r'' False])"
proof -
  have exists: "is_file example_ctx [] ''/tmp/data.csv''"
    by (rule is_file_examples)
  have not_remote: "\<not> is_remote example_ctx ''/tmp/data.csv''"
    by (rule remote_examples)
  have val: "StrV ''/tmp/data.csv'' = StrV ''/tmp/data.csv'' \<or> StrV ''/tmp/data.csv'' = PathV ''/tmp/data.csv''"
    by simp
  have minted: "get_random_remote_path example_ctx [] (Some ''/tmp/data.csv'') = ''s3://raw-output/r''"
    by (rule minted_examples)
  have put: "put_data example_ctx tr' src dst m = None" for tr' src dst m
    by (simp add: example_ctx_def)
  show ?thesis
    using to_literal_local_file_uploads_once [OF val exists not_remote, of "''csv''"]
    by (simp add: minted put prod_eq_iff)
qed

subsection \<open>A \<^verbatim>\<open>FlyteFile\<close> that came from a remote literal\<close>

lemma to_literal_remote_source:
  "remote_source v = Some rs \<Longrightarrow>
   to_literal ctx (FlyteFileV v) python_type tr =
     (case get_format python_type of
        Inl e \<Rightarrow> Inl e
      | Inr fmt \<Rightarrow> Inr (Blob (BlobType fmt SINGLE) rs), tr)"
  by (simp add: to_literal_def blob_type_of_def split: sum.splits)

lemma to_literal_remote_source_flyte_file:
  "remote_source v = Some rs \<Longrightarrow>
   to_literal ctx (FlyteFileV v) (FlyteFileT ext) tr = (Inr (Blob (BlobType ext SINGLE) rs), tr)"
  by (simp add: to_literal_remote_source)

text \<open>
  Claim C3 says that a \<^verbatim>\<open>FlyteFile\<close> whose \<^verbatim>\<open>_remote_source\<close> is set is encoded, whatever
  the declared type, as a blob with exactly that URI and with no store call. For a
  declared type that has a format tag this is what the code does (the two lemmas above).
  For the declared type \<^verbatim>\<open>pathlib.Path\<close> the code never gets there: \<^verbatim>\<open>meta\<close> is computed
  first, \<^verbatim>\<open>get_format\<close> calls \<^verbatim>\<open>pathlib.Path.extension()\<close>, and the \<^verbatim>\<open>AttributeError\<close> ends
  the call before the value is looked at.
\<close>

theorem to_literal_remote_source_path_type_raises:
  "remote_source decoded_file = Some ''s3://b/k''
   \<and> to_literal example_ctx (FlyteFileV decoded_file) (PathT None) [] =
       (Inl (AttributeError ''extension''), [])
   \<and> to_literal example_ctx (FlyteFileV decoded_file) OsPathLikeT [] =
       (Inl (AttributeError ''extension''), [])"
  by (simp add: to_literal_def decoded_file_def)

section \<open>Decoding a file: \<^verbatim>\<open>FlyteFilePathTransformer.to_python_value\<close>\<close>

lemma strip_normal:
  assumes "ext \<noteq> []" and "\<not> is_space (hd ext)" and "\<not> is_space (last ext)"
  shows "strip ext = ext"
proof -
  have front: "dropWhile is_space ext = ext"
    using assms by (simp add: dropWhile_eq_self_iff)
  have rear: "dropWhile is_space (rev ext) = rev ext"
    using assms by (simp add: dropWhile_eq_self_iff hd_rev)
  show ?thesis by (simp add: strip_def front rear)
qed

lemma class_getitem_normal:
  assumes "tag_normal ext"
  shows "class_getitem ext = ext"
proof (cases "ext = []")
  case True
  then show ?thesis by (simp add: class_getitem_def lstrip_def strip_def)
next
  case False
  with assms have h: "\<not> is_space (hd ext)" "\<not> is_space (last ext)"
      "hd ext \<noteq> CHR ''~''" "hd ext \<noteq> CHR ''.''"
    by (auto simp: tag_normal_def)
  have s: "strip ext = ext" using strip_normal False h by simp
  have tilde: "dropWhile (\<lambda>c. c = CHR ''~'') ext = ext"
    using h by (simp add: dropWhile_eq_self_iff)
  have dot: "dropWhile (\<lambda>c. c = CHR ''.'') ext = ext"
    using h by (simp add: dropWhile_eq_self_iff)
  show ?thesis by (simp add: class_getitem_def lstrip_def s tilde dot)
qed

lemma to_python_value_remote:
  "is_remote ctx uri \<Longrightarrow>
   to_python_value ctx (Blob meta uri) (FlyteFileT ext) tr =
     (Inr (FlyteFileV
        \<lparr>extension = class_getitem ext, path = get_random_local_path ctx tr uri,
         downloader = GetDataClosure uri (get_random_local_path ctx tr uri),
         downloaded = False, remote_path = RemoteNone, remote_source = Some uri\<rparr>),
      tr @ [GetRandomLocalPath uri])"
  by (simp add: to_python_value_def init_flyte_file_def Let_def)

text \<open>
  Claim C5. For a blob literal with a remote URI and an expected type that is
  \<^verbatim>\<open>FlyteFile\<close> or a subclass, decoding mints one local path and returns a \<^verbatim>\<open>FlyteFile\<close>
  whose path is that local path, whose \<^verbatim>\<open>_remote_source\<close> is the URI, whose
  \<^verbatim>\<open>_downloaded\<close> is false, and whose downloader, when called, makes the one call
  \<^verbatim>\<open>get_data(uri, local_path, is_multipart=False)\<close>. The format tag comes from the
  expected type and from nothing else (not from the literal's metadata): the class of
  the value is \<^verbatim>\<open>FlyteFile[expected_format]\<close>, so its tag is the expected type's tag as
  \<^verbatim>\<open>__class_getitem__\<close> reads it, which is the expected tag itself whenever that tag is
  empty or has no white space at either end and neither \<^verbatim>\<open>~\<close> nor \<^verbatim>\<open>.\<close> in front.
\<close>

theorem to_python_value_remote_blob:
  assumes "is_remote ctx uri"
  shows "\<exists>v. to_python_value ctx (Blob meta uri) (FlyteFileT ext) tr =
             (Inr (FlyteFileV v), tr @ [GetRandomLocalPath uri])
           \<and> path v = get_random_local_path ctx tr uri
           \<and> remote_source v = Some uri
           \<and> \<not> downloaded v
           \<and> remote_path v = RemoteNone
           \<and> downloader v = GetDataClosure uri (path v)
           \<and> snd (call_downloader ctx (downloader v) tr') =
               tr' @ [CallDownloader (downloader v), GetData uri (path v) False]
           \<and> extension v = class_getitem ext
           \<and> (tag_normal ext \<longrightarrow> extension v = ext)"
  using assms
  by (simp add: to_python_value_remote call_downloader_def class_getitem_normal)

theorem to_python_value_remote_blob_witness:
  "to_python_value example_ctx (Blob (BlobType ''csv'' SINGLE) ''s3://b/k'') (FlyteFileT ''csv'') [] =
     (Inr (FlyteFileV decoded_file), [GetRandomLocalPath ''s3://b/k''])"
proof -
  have remote: "is_remote example_ctx ''s3://b/k''"
    by (rule remote_examples)
  have minted: "get_random_local_path example_ctx [] ''s3://b/k'' = ''/tmp/flyte/l''"
    by (rule minted_examples)
  have normal: "tag_normal ''csv''"
    by (simp add: tag_normal_def is_space_def)
  obtain v where v:
    "to_python_value example_ctx (Blob (BlobType ''csv'' SINGLE) ''s3://b/k'') (FlyteFileT ''csv'') [] =
       (Inr (FlyteFileV v), [GetRandomLocalPath ''s3://b/k''])"
    "path v = ''/tmp/flyte/l''" "remote_source v = Some ''s3://b/k''" "\<not> downloaded v"
    "remote_path v = RemoteNone" "downloader v = GetDataClosure ''s3://b/k'' (path v)"
    "extension v = ''csv''"
    using to_python_value_remote_blob [OF remote, of "BlobType ''csv'' SINGLE" "''csv''" "[]" "[]"]
      minted normal by auto
  have "v = decoded_file"
    using v(2-7) by (simp add: decoded_file_def)
  with v(1) show ?thesis by simp
qed

text \<open>
  \<^verbatim>\<open>__class_getitem__\<close> does not leave every tag it produces as it is:
  \<^verbatim>\<open>FlyteFile[".~csv"]\<close> has the tag \<^verbatim>\<open>~csv\<close>, and a value decoded with that expected
  type is an instance of \<^verbatim>\<open>FlyteFile["~csv"]\<close>, whose tag is \<^verbatim>\<open>csv\<close>.
\<close>

lemma to_python_value_tag_read_again:
  "get_format (FlyteFileT (class_getitem ''.~csv'')) = Inr ''~csv''
   \<and> fst (to_python_value example_ctx (Blob (BlobType ''csv'' SINGLE) ''s3://b/k'')
            (FlyteFileT (class_getitem ''.~csv'')) []) =
       Inr (FlyteFileV decoded_file)"
  by (simp add: class_getitem_examples to_python_value_remote remote_examples
        minted_examples decoded_file_def)

section \<open>Dereferencing a file: \<^verbatim>\<open>__fspath__\<close>\<close>

lemma call_downloader_count:
  "call_downloader ctx d tr = (r, tr') \<Longrightarrow> downloader_calls tr' = Suc (downloader_calls tr)"
  by (cases d) (auto simp: call_downloader_def downloader_calls_def Let_def)

lemma fspath_downloaded:
  "downloaded self \<Longrightarrow> fspath ctx self tr = (Inr (path self), self, tr)"
  by (simp add: fspath_def)

lemma fspath_times_downloaded:
  "downloaded self \<Longrightarrow>
   fspath_times ctx n self tr = (replicate n (Inr (path self)), self, tr)"
  by (induction n) (simp_all add: fspath_downloaded)

text \<open>
  Claim C6, amended. Take an instance that has not been dereferenced yet
  (\<^verbatim>\<open>_downloaded\<close> is false, as \<^verbatim>\<open>__init__\<close> leaves it). If its downloader returns when
  first called, dereferencing the instance \<open>n + 1\<close> times in a row returns the same path
  every time, invokes the downloader exactly once, at the first dereference (the trace
  at the end is the trace after that one call), and leaves \<^verbatim>\<open>_downloaded\<close> true: the
  flag goes from false to true at the first dereference and is not written again. If
  the downloader raises, \<^verbatim>\<open>__fspath__\<close> raises the same exception and leaves the instance
  as it was, \<^verbatim>\<open>_downloaded\<close> still false, so that the next dereference calls it again.
\<close>

theorem fspath_downloads_once:
  assumes "\<not> downloaded self"
  shows "(call_downloader ctx (downloader self) tr = (None, tr1) \<longrightarrow>
            fspath_times ctx (Suc n) self tr =
              (replicate (Suc n) (Inr (path self)), self\<lparr>downloaded := True\<rparr>, tr1)
            \<and> downloader_calls tr1 = Suc (downloader_calls tr))
         \<and> (call_downloader ctx (downloader self) tr = (Some e, tr1) \<longrightarrow>
            fspath ctx self tr = (Inl e, self, tr1))"
proof -
  have returns: "fspath_times ctx (Suc n) self tr =
           (replicate (Suc n) (Inr (path self)), self\<lparr>downloaded := True\<rparr>, tr1)
         \<and> downloader_calls tr1 = Suc (downloader_calls tr)"
    if ok: "call_downloader ctx (downloader self) tr = (None, tr1)"
  proof -
    have first: "fspath ctx self tr = (Inr (path self), self\<lparr>downloaded := True\<rparr>, tr1)"
      using assms ok by (simp add: fspath_def)
    have others: "fspath_times ctx n (self\<lparr>downloaded := True\<rparr>) tr1 =
        (replicate n (Inr (path self)), self\<lparr>downloaded := True\<rparr>, tr1)"
      using fspath_times_downloaded [of "self\<lparr>downloaded := True\<rparr>" ctx n tr1] by simp
    show ?thesis
      using first others call_downloader_count [OF ok] by simp
  qed
  have raises: "fspath ctx self tr = (Inl e, self, tr1)"
    if "call_downloader ctx (downloader self) tr = (Some e, tr1)"
    using assms that by (simp add: fspath_def)
  show ?thesis using returns raises by blast
qed

theorem fspath_downloads_once_witness:
  "fspath_times example_ctx 3 decoded_file [] =
     ([Inr ''/tmp/flyte/l'', Inr ''/tmp/flyte/l'', Inr ''/tmp/flyte/l''],
      decoded_file\<lparr>downloaded := True\<rparr>,
      [CallDownloader (GetDataClosure ''s3://b/k'' ''/tmp/flyte/l''),
       GetData ''s3://b/k'' ''/tmp/flyte/l'' False])
   \<and> downloader_calls
       [CallDownloader (GetDataClosure ''s3://b/k'' ''/tmp/flyte/l''),
        GetData ''s3://b/k'' ''/tmp/flyte/l'' False] = 1
   \<and> fspath failing_ctx decoded_file [] =
       (Inl (Raised 5), decoded_file,
        [CallDownloader (GetDataClosure ''s3://b/k'' ''/tmp/flyte/l''),
         GetData ''s3://b/k'' ''/tmp/flyte/l'' False])"
proof -
  have fresh: "\<not> downloaded decoded_file"
    by (simp add: decoded_file_def)
  have returns: "call_downloader example_ctx (downloader decoded_file) [] =
      (None, [CallDownloader (GetDataClosure ''s3://b/k'' ''/tmp/flyte/l''),
              GetData ''s3://b/k'' ''/tmp/flyte/l'' False])"
    by (simp add: call_downloader_def decoded_file_def example_ctx_def)
  have raises: "call_downloader failing_ctx (downloader decoded_file) [] =
      (Some (Raised 5), [CallDownloader (GetDataClosure ''s3://b/k'' ''/tmp/flyte/l''),
              GetData ''s3://b/k'' ''/tmp/flyte/l'' False])"
    by (simp add: call_downloader_def decoded_file_def failing_ctx_def example_ctx_def)
  have three: "fspath_times example_ctx 3 decoded_file [] =
     ([Inr ''/tmp/flyte/l'', Inr ''/tmp/flyte/l'', Inr ''/tmp/flyte/l''],
      decoded_file\<lparr>downloaded := True\<rparr>,
      [CallDownloader (GetDataClosure ''s3://b/k'' ''/tmp/flyte/l''),
       GetData ''s3://b/k'' ''/tmp/flyte/l'' False])"
    using fspath_downloads_once [OF fresh, of example_ctx "[]" _ 2] returns
    by (simp add: decoded_file_def numeral_3_eq_3)
  have once: "downloader_calls
       [CallDownloader (GetDataClosure ''s3://b/k'' ''/tmp/flyte/l''),
        GetData ''s3://b/k'' ''/tmp/flyte/l'' False] = 1"
    using fspath_downloads_once [OF fresh, of example_ctx "[]" _ 2] returns
    by (simp add: downloader_calls_def)
  have failed: "fspath failing_ctx decoded_file [] =
       (Inl (Raised 5), decoded_file,
        [CallDownloader (GetDataClosure ''s3://b/k'' ''/tmp/flyte/l''),
         GetData ''s3://b/k'' ''/tmp/flyte/l'' False])"
    using fspath_downloads_once [OF fresh, of failing_ctx "[]" _ _ "Raised 5"] raises
    by simp
  show ?thesis using three once failed by simp
qed

text \<open>
  The claim as stated fails for a decoded file whose store cannot be read: two
  dereferences invoke the downloader twice, and \<^verbatim>\<open>_downloaded\<close> is false after both.
\<close>

theorem fspath_failing_download_counterexample:
  "fspath_times failing_ctx 2 decoded_file [] =
     ([Inl (Raised 5), Inl (Raised 5)], decoded_file,
      [CallDownloader (GetDataClosure ''s3://b/k'' ''/tmp/flyte/l''),
       GetData ''s3://b/k'' ''/tmp/flyte/l'' False,
       CallDownloader (GetDataClosure ''s3://b/k'' ''/tmp/flyte/l''),
       GetData ''s3://b/k'' ''/tmp/flyte/l'' False])"
  by (simp add: numeral_2_eq_2 fspath_def call_downloader_def failing_ctx_def
        example_ctx_def decoded_file_def)

section \<open>Registering handlers: \<^verbatim>\<open>register_handler\<close>\<close>

lemma note_types:
  "note_type to_type (note_type from_type (seen, tr)) =
     (seen @ new_types from_type to_type seen,
      tr @ map OverrideTransformer (new_types from_type to_type seen))"
  by (auto simp: note_type_def new_types_def)

lemma register_handler_types:
  "register_handler from_type to_type h self tr = (r, self', tr') \<Longrightarrow>
   REGISTER_TYPES self' = REGISTER_TYPES self @ new_types from_type to_type (REGISTER_TYPES self)
   \<and> tr' = tr @ map OverrideTransformer (new_types from_type to_type (REGISTER_TYPES self))"
  by (auto simp: register_handler_def note_types Let_def split: if_splits)

lemma register_handler_retrieval:
  "is_retrieval h \<Longrightarrow>
   get_handler from_type to_type
     (DATASET_RETRIEVAL_HANDLERS (fst (snd (register_handler from_type to_type h self tr)))) = Some h"
  by (simp add: register_handler_def note_types get_handler_def registry_set_def Let_def)

lemma overrides_append: "overrides (tr @ tr') = overrides tr @ overrides tr'"
  by (induction tr rule: overrides.induct) simp_all

lemma overrides_map: "overrides (map OverrideTransformer ts) = ts"
  by (induction ts) simp_all

lemma new_types_distinct:
  "distinct seen \<Longrightarrow> distinct (seen @ new_types from_type to_type seen)"
  by (auto simp: new_types_def)

lemma new_types_set:
  "set (seen @ new_types from_type to_type seen) = set seen \<union> {from_type, to_type}"
  by (auto simp: new_types_def)

text \<open>
  What a run of registrations keeps true: the list of seen types has no repetition,
  and it is the list of types the outer \<^verbatim>\<open>TypeEngine\<close> was told to route here.
\<close>

lemma register_all_invariant:
  "distinct (REGISTER_TYPES self) \<Longrightarrow> overrides tr = REGISTER_TYPES self \<Longrightarrow>
   register_all regs self tr = (self', tr') \<Longrightarrow>
   distinct (REGISTER_TYPES self') \<and> overrides tr' = REGISTER_TYPES self'
   \<and> set (REGISTER_TYPES self') = set (REGISTER_TYPES self) \<union> set (mentioned regs)"
proof (induction regs arbitrary: self tr)
  case Nil
  then show ?case by simp
next
  case (Cons reg regs)
  obtain from_type to_type h where reg: "reg = (from_type, to_type, h)"
    by (cases reg) auto
  obtain r self1 tr1 where step: "register_handler from_type to_type h self tr = (r, self1, tr1)"
    by (cases "register_handler from_type to_type h self tr") auto
  note st = register_handler_types [OF step]
  have d1: "distinct (REGISTER_TYPES self1)"
    using st Cons.prems(1) new_types_distinct by simp
  have o1: "overrides tr1 = REGISTER_TYPES self1"
    using st Cons.prems(2) by (simp add: overrides_append overrides_map)
  have run: "register_all regs self1 tr1 = (self', tr')"
    using Cons.prems(3) reg step by simp
  have s1: "set (REGISTER_TYPES self1) = set (REGISTER_TYPES self) \<union> {from_type, to_type}"
    using st new_types_set [of "REGISTER_TYPES self" from_type to_type] by simp
  from Cons.IH [OF d1 o1 run] s1 reg show ?case by auto
qed

text \<open>
  Claim C7. One call of \<^verbatim>\<open>register_handler\<close>, in any state and with any handler:
  the types among \<open>from_type\<close>, \<open>to_type\<close> that are not yet in \<^verbatim>\<open>_REGISTER_TYPES\<close> are
  appended to it, each once, and \<^verbatim>\<open>TypeEngine.override_transformer\<close> is called for
  exactly those; a type already seen is neither appended nor routed again. Any run of
  registrations from the start (nothing seen, nothing routed): every type the run
  mentions has been routed exactly once, and \<^verbatim>\<open>_REGISTER_TYPES\<close> is the list of the
  types routed.
\<close>

theorem register_handler_routes_each_type_once:
  "(let (r, self', tr') = register_handler from_type to_type h self tr in
      REGISTER_TYPES self' =
        REGISTER_TYPES self @ new_types from_type to_type (REGISTER_TYPES self)
      \<and> tr' = tr @ map OverrideTransformer (new_types from_type to_type (REGISTER_TYPES self)))
   \<and> (let (self', tr') = register_all regs initial_transformer [] in
        distinct (overrides tr') \<and> set (overrides tr') = set (mentioned regs)
        \<and> REGISTER_TYPES self' = overrides tr')"
proof -
  obtain self1 tr1 where run: "register_all regs initial_transformer [] = (self1, tr1)"
    by (cases "register_all regs initial_transformer []") auto
  have "distinct (REGISTER_TYPES initial_transformer)"
    and "overrides [] = REGISTER_TYPES initial_transformer"
    by (simp_all add: initial_transformer_def)
  from register_all_invariant [OF this run]
  have whole: "distinct (overrides tr1) \<and> set (overrides tr1) = set (mentioned regs)
      \<and> REGISTER_TYPES self1 = overrides tr1"
    by (simp add: initial_transformer_def)
  obtain r self2 tr2 where step: "register_handler from_type to_type h self tr = (r, self2, tr2)"
    by (cases "register_handler from_type to_type h self tr") auto
  show ?thesis
    using whole run step register_handler_types [OF step] by simp
qed

text \<open>
  Claim C10: a handler that is an instance of none of the four base classes makes
  \<^verbatim>\<open>register_handler\<close> raise \<^verbatim>\<open>TypeError\<close>, with the four registries as they were, but
  after \<open>from_type\<close> and \<open>to_type\<close> have been appended to \<^verbatim>\<open>_REGISTER_TYPES\<close> and routed
  to the transformer (where they were new); nothing undoes that.
\<close>

theorem register_handler_raises_after_routing:
  assumes "\<not> is_retrieval h" and "\<not> is_persistence h"
    and "\<not> is_encoding h" and "\<not> is_decoding h"
  shows "register_handler from_type to_type h self tr =
           (Some (TypeError ''We don't support this type of handlers {h}''),
            self\<lparr>REGISTER_TYPES :=
              REGISTER_TYPES self @ new_types from_type to_type (REGISTER_TYPES self)\<rparr>,
            tr @ map OverrideTransformer (new_types from_type to_type (REGISTER_TYPES self)))
         \<and> from_type \<in> set (REGISTER_TYPES self @ new_types from_type to_type (REGISTER_TYPES self))
         \<and> to_type \<in> set (REGISTER_TYPES self @ new_types from_type to_type (REGISTER_TYPES self))"
  using assms by (auto simp: register_handler_def note_types new_types_def)

theorem register_handler_raises_after_routing_witness:
  "register_handler (PyClass 7) (FormatKey PARQUET) not_a_handler initial_transformer [] =
     (Some (TypeError ''We don't support this type of handlers {h}''),
      initial_transformer\<lparr>REGISTER_TYPES := [PyClass 7, FormatKey PARQUET]\<rparr>,
      [OverrideTransformer (PyClass 7), OverrideTransformer (FormatKey PARQUET)])"
proof -
  have none: "\<not> is_retrieval not_a_handler" "\<not> is_persistence not_a_handler"
      "\<not> is_encoding not_a_handler" "\<not> is_decoding not_a_handler"
    by (simp_all add: not_a_handler_def)
  have seen: "REGISTER_TYPES initial_transformer = []"
    by (simp add: initial_transformer_def)
  show ?thesis
    using register_handler_raises_after_routing
      [OF none, of "PyClass 7" "FormatKey PARQUET" initial_transformer "[]"]
    by (simp add: seen new_types_def)
qed

section \<open>Retrieving a dataset: \<^verbatim>\<open>download\<close>\<close>

text \<open>
  Claim C4, amended. A handler counts as registered for \<^verbatim>\<open>download\<close> when it is in the
  registry and true in a boolean context (\<^verbatim>\<open>if retrieve_handler:\<close>); one that is there
  but false is passed over like one that is not there. If \<^verbatim>\<open>DATASET_RETRIEVAL_HANDLERS\<close>
  has a true handler for \<open>(from_type, to_type)\<close>, \<^verbatim>\<open>download\<close> calls its \<^verbatim>\<open>retrieve\<close> once,
  with the URI, calls nothing else, and returns what it returns. If not, and there are
  a true retrieval handler for \<open>(from_type, pa.Table)\<close> and a true decoding handler for
  \<open>(pa.Table, to_type)\<close>, it retrieves the table and then decodes it. It raises its own
  \<^verbatim>\<open>ValueError\<close> exactly when there is no true direct handler and one of the two others
  is missing or false.
\<close>

theorem download_dispatch:
  "(get_handler from_type to_type (DATASET_RETRIEVAL_HANDLERS self) = Some h \<longrightarrow>
      bool_value h \<longrightarrow>
      download self from_type to_type uri tr =
        (propagate (retrieve h uri), tr @ [Retrieve (handler_id h) uri]))
   \<and> (\<not> handler_true (get_handler from_type to_type (DATASET_RETRIEVAL_HANDLERS self)) \<longrightarrow>
      get_handler from_type get_intermediate_format (DATASET_RETRIEVAL_HANDLERS self) = Some r \<longrightarrow>
      bool_value r \<longrightarrow>
      get_handler get_intermediate_format to_type (DATASET_DECODING_HANDLERS self) = Some d \<longrightarrow>
      bool_value d \<longrightarrow>
      download self from_type to_type uri tr =
        (case retrieve r uri of
           Inl n \<Rightarrow> (Inl (Raised n), tr @ [Retrieve (handler_id r) uri])
         | Inr table \<Rightarrow>
             (propagate (decode d table),
              tr @ [Retrieve (handler_id r) uri, Decode (handler_id d) table])))
   \<and> ((fst (download self from_type to_type uri tr) = Inl unsupported_download) =
        (\<not> handler_true (get_handler from_type to_type (DATASET_RETRIEVAL_HANDLERS self))
         \<and> (\<not> handler_true
                 (get_handler from_type get_intermediate_format (DATASET_RETRIEVAL_HANDLERS self))
            \<or> \<not> handler_true
                 (get_handler get_intermediate_format to_type (DATASET_DECODING_HANDLERS self)))))"
  by (auto simp: download_def propagate_def unsupported_download_def Let_def
           split: option.splits sum.splits)

lemma direct_transformer_handlers:
  "get_handler (FormatKey PARQUET) PdDataFrame (DATASET_RETRIEVAL_HANDLERS direct_transformer) =
     Some parquet_to_pandas"
  unfolding direct_transformer_def
  by (rule register_handler_retrieval) (simp add: parquet_to_pandas_def)

lemma two_hop_transformer_handlers:
  "get_handler (FormatKey PARQUET) PdDataFrame (DATASET_RETRIEVAL_HANDLERS two_hop_transformer) = None"
  "get_handler (FormatKey PARQUET) get_intermediate_format
     (DATASET_RETRIEVAL_HANDLERS two_hop_transformer) = Some parquet_to_arrow"
  "get_handler get_intermediate_format PdDataFrame
     (DATASET_DECODING_HANDLERS two_hop_transformer) = Some arrow_to_pandas"
proof -
  have kinds: "is_retrieval parquet_to_arrow" "\<not> is_retrieval arrow_to_pandas"
      "\<not> is_persistence arrow_to_pandas" "\<not> is_encoding arrow_to_pandas"
      "is_decoding arrow_to_pandas"
    by (simp_all add: parquet_to_arrow_def arrow_to_pandas_def)
  show "get_handler (FormatKey PARQUET) PdDataFrame
          (DATASET_RETRIEVAL_HANDLERS two_hop_transformer) = None"
    by (simp add: two_hop_transformer_def register_handler_def note_types kinds
          get_handler_def registry_set_def initial_transformer_def Let_def)
  show "get_handler (FormatKey PARQUET) get_intermediate_format
          (DATASET_RETRIEVAL_HANDLERS two_hop_transformer) = Some parquet_to_arrow"
    by (simp add: two_hop_transformer_def register_handler_def note_types kinds
          get_handler_def registry_set_def initial_transformer_def get_intermediate_format_def
          Let_def)
  show "get_handler get_intermediate_format PdDataFrame
          (DATASET_DECODING_HANDLERS two_hop_transformer) = Some arrow_to_pandas"
    by (simp add: two_hop_transformer_def register_handler_def note_types kinds
          get_handler_def registry_set_def initial_transformer_def get_intermediate_format_def
          Let_def)
qed

lemma initial_transformer_handlers:
  "get_handler from_type to_type (DATASET_RETRIEVAL_HANDLERS initial_transformer) = None"
  "get_handler from_type to_type (DATASET_DECODING_HANDLERS initial_transformer) = None"
  by (simp_all add: get_handler_def initial_transformer_def)

theorem download_dispatch_witness:
  "download direct_transformer (FormatKey PARQUET) PdDataFrame ''s3://b/t'' [] =
     (Inr (PdDataFrameV [(''a'', PaInt64)]), [Retrieve 1 ''s3://b/t''])
   \<and> download two_hop_transformer (FormatKey PARQUET) PdDataFrame ''s3://b/t'' [] =
     (Inr (PdDataFrameV [(''a'', PaInt64)]),
      [Retrieve 2 ''s3://b/t'', Decode 3 (PaTableV [(''a'', PaInt64)])])
   \<and> fst (download initial_transformer (FormatKey PARQUET) PdDataFrame ''s3://b/t'' []) =
     Inl (ValueError ''Not yet implemented download data {to_type} from {from_type}'')"
proof -
  have direct: "download direct_transformer (FormatKey PARQUET) PdDataFrame ''s3://b/t'' [] =
      (Inr (PdDataFrameV [(''a'', PaInt64)]), [Retrieve 1 ''s3://b/t''])"
    using download_dispatch
      [of "FormatKey PARQUET" PdDataFrame direct_transformer parquet_to_pandas "''s3://b/t''" "[]"]
      direct_transformer_handlers
    by (simp add: propagate_def parquet_to_pandas_def)
  have two_hop: "download two_hop_transformer (FormatKey PARQUET) PdDataFrame ''s3://b/t'' [] =
      (Inr (PdDataFrameV [(''a'', PaInt64)]),
       [Retrieve 2 ''s3://b/t'', Decode 3 (PaTableV [(''a'', PaInt64)])])"
    using download_dispatch
      [of "FormatKey PARQUET" PdDataFrame two_hop_transformer _ "''s3://b/t''" "[]"
          parquet_to_arrow arrow_to_pandas]
      two_hop_transformer_handlers
    by (simp add: propagate_def parquet_to_arrow_def arrow_to_pandas_def)
  have neither:
    "fst (download initial_transformer (FormatKey PARQUET) PdDataFrame ''s3://b/t'' []) =
       Inl (ValueError ''Not yet implemented download data {to_type} from {from_type}'')"
    using download_dispatch
      [of "FormatKey PARQUET" PdDataFrame initial_transformer _ "''s3://b/t''" "[]"]
      initial_transformer_handlers
    by (simp add: unsupported_download_def)
  show ?thesis using direct two_hop neither by simp
qed

lemma falsy_transformer_handlers:
  "get_handler (FormatKey PARQUET) PdDataFrame (DATASET_RETRIEVAL_HANDLERS falsy_transformer) =
     Some empty_container_handler"
  unfolding falsy_transformer_def
  by (rule register_handler_retrieval) (simp add: empty_container_handler_def)

text \<open>
  The claim as stated fails for a retrieval handler that is registered for
  \<open>(PARQUET, pd.DataFrame)\<close> and false in a boolean context: \<^verbatim>\<open>download\<close> raises the
  \<^verbatim>\<open>ValueError\<close> and calls nothing.
\<close>

theorem download_falsy_handler_counterexample:
  "get_handler (FormatKey PARQUET) PdDataFrame (DATASET_RETRIEVAL_HANDLERS falsy_transformer) =
     Some empty_container_handler
   \<and> download falsy_transformer (FormatKey PARQUET) PdDataFrame ''s3://b/t'' [] =
       (Inl (ValueError ''Not yet implemented download data {to_type} from {from_type}''), [])"
proof -
  have falsy: "\<not> bool_value empty_container_handler"
    by (simp add: empty_container_handler_def)
  have others:
    "get_handler (FormatKey PARQUET) get_intermediate_format
       (DATASET_RETRIEVAL_HANDLERS falsy_transformer) = None"
    by (simp add: falsy_transformer_def register_handler_def note_type_def
          empty_container_handler_def get_handler_def registry_set_def initial_transformer_def
          get_intermediate_format_def Let_def)
  show ?thesis
    using falsy others by (simp add: falsy_transformer_handlers download_def)
qed

section \<open>Encoding a dataset: \<^verbatim>\<open>StructuredDatasetTransformer.to_literal\<close>\<close>

text \<open>
  Claim C2, amended. A \<^verbatim>\<open>StructuredDataset\<close> with neither a dataframe nor a local path
  does not make \<^verbatim>\<open>to_literal\<close> fail. When its remote path is set (as it is in the
  value \<^verbatim>\<open>to_python_value\<close> returns), \<^verbatim>\<open>to_literal\<close> copies nothing, calls no handler
  and no collaborator, and returns the literal with that remote path as URI and the
  value's format; it fails only where a declared column type is not supported.
\<close>

theorem sd_to_literal_remote_only:
  assumes "sd_dataframe v = None" and "\<not> truthy (sd_local_path v)"
    and "sd_remote_path v = Some u" and "u \<noteq> []"
  shows "sd_to_literal ctx self (SDV v) tr =
           (case convert_columns (sd_columns v) [] of
              Inl e \<Rightarrow> Inl e
            | Inr cols \<Rightarrow> Inr (StructuredDatasetLit u (name (sd_file_format v)) cols), tr)"
  using assms by (simp add: sd_to_literal_def make_literal_def split: sum.splits)

theorem sd_to_literal_remote_only_witness:
  "sd_to_literal example_ctx initial_transformer
     (SDV \<lparr>sd_columns = [(''id'', PyInt)], sd_dataframe = None, sd_local_path = Some '''',
           sd_remote_path = Some ''bq://project.dataset.table'', sd_file_format = BIGQUERY\<rparr>) [] =
     (Inr (StructuredDatasetLit ''bq://project.dataset.table'' ''BIGQUERY''
             [(''id'', Simple INTEGER)]), [])"
  using sd_to_literal_remote_only
    [of "\<lparr>sd_columns = [(''id'', PyInt)], sd_dataframe = None, sd_local_path = Some '''',
           sd_remote_path = Some ''bq://project.dataset.table'', sd_file_format = BIGQUERY\<rparr>"
        "''bq://project.dataset.table''" example_ctx initial_transformer "[]"]
  by simp

text \<open>
  The claim as stated fails for the value that decoding a literal gives, which has
  only a remote path and a format: encoding it returns a literal.
\<close>

theorem sd_to_literal_both_absent_counterexample:
  "sd_to_python_value initial_transformer
     (StructuredDatasetLit ''s3://bucket/table'' ''PARQUET'' []) (StructuredDatasetT []) [] =
     (Inr (SDV \<lparr>sd_columns = [], sd_dataframe = None, sd_local_path = None,
                sd_remote_path = Some ''s3://bucket/table'', sd_file_format = PARQUET\<rparr>), [])
   \<and> sd_to_literal example_ctx initial_transformer
       (SDV \<lparr>sd_columns = [], sd_dataframe = None, sd_local_path = None,
             sd_remote_path = Some ''s3://bucket/table'', sd_file_format = PARQUET\<rparr>) [] =
       (Inr (StructuredDatasetLit ''s3://bucket/table'' ''PARQUET'' []), [])"
  by (simp add: sd_to_python_value_def value_of_def sd_to_literal_def make_literal_def)

section \<open>Guessing the Python type back: \<^verbatim>\<open>guess_python_type\<close>\<close>

lemma dict_setitem_new: "k \<notin> fst ` set d \<Longrightarrow> dict_setitem d k v = d @ [(k, v)]"
  by (induction d) auto

lemma convert_columns_canonical:
  "\<forall>(n, t) \<in> set cols. t \<in> canonical_types \<Longrightarrow>
   convert_columns cols lacc = Inr (lacc @ map (\<lambda>(n, t). (n, the (supported_types t))) cols)"
proof (induction cols arbitrary: lacc)
  case Nil
  then show ?case by simp
next
  case (Cons c cols)
  obtain n t where c: "c = (n, t)" by (cases c) auto
  have t: "t \<in> canonical_types" using Cons.prems c by auto
  then have "get_dataset_column_literal_type t = Inr (the (supported_types t))"
    by (auto simp: canonical_types_def)
  then show ?case using Cons c by simp
qed

lemma guess_columns_canonical:
  "\<forall>(n, t) \<in> set cols. t \<in> canonical_types \<Longrightarrow> distinct (map fst acc @ map fst cols) \<Longrightarrow>
   guess_columns (map (\<lambda>(n, t). (n, the (supported_types t))) cols) acc = Inr (acc @ cols)"
proof (induction cols arbitrary: acc)
  case Nil
  then show ?case by simp
next
  case (Cons c cols)
  obtain n t where c: "c = (n, t)" by (cases c) auto
  have t: "t \<in> canonical_types" using Cons.prems c by auto
  then have g: "guess_column (the (supported_types t)) = Some t"
    by (auto simp: canonical_types_def)
  have new: "n \<notin> fst ` set acc" using Cons.prems(2) c by auto
  have d: "distinct (map fst (acc @ [(n, t)]) @ map fst cols)"
    using Cons.prems(2) c by auto
  have others: "\<forall>(n, t) \<in> set cols. t \<in> canonical_types" using Cons.prems(1) by simp
  show ?case using Cons.IH [OF others d] c g dict_setitem_new [OF new] by simp
qed

lemma guess_columns_unknown:
  "\<exists>(n, lt) \<in> set lcols. lt \<notin> six_simple_kinds \<Longrightarrow>
   guess_columns lcols acc = Inl (ValueError ''Unknown structured dataset column type {literal_column}'')"
proof (induction lcols arbitrary: acc)
  case Nil
  then show ?case by simp
next
  case (Cons c lcols)
  obtain n lt where c: "c = (n, lt)" by (cases c) auto
  show ?case
  proof (cases "guess_column lt")
    case None
    then show ?thesis using c by simp
  next
    case (Some t)
    then have "lt \<in> six_simple_kinds"
      by (cases lt rule: guess_column.cases) (auto simp: six_simple_kinds_def)
    then have "\<exists>(n, lt) \<in> set lcols. lt \<notin> six_simple_kinds" using Cons.prems c by auto
    then show ?thesis using Cons.IH c Some by simp
  qed
qed

text \<open>
  Claim C8. For a dict of columns (no name twice) whose types are all among \<^verbatim>\<open>int\<close>,
  \<^verbatim>\<open>float\<close>, \<^verbatim>\<open>str\<close>, \<^verbatim>\<open>bool\<close>, \<^verbatim>\<open>datetime.datetime\<close>, \<^verbatim>\<open>datetime.timedelta\<close>,
  \<^verbatim>\<open>get_literal_type(StructuredDataset[columns])\<close> succeeds and \<^verbatim>\<open>guess_python_type\<close> of
  it is a \<^verbatim>\<open>StructuredDataset\<close> class with the same columns, same order. And
  \<^verbatim>\<open>guess_python_type\<close> raises \<^verbatim>\<open>ValueError\<close> for a structured dataset type with a column
  whose literal type is not one of the six simple kinds.
\<close>

theorem guess_python_type_roundtrip:
  "(distinct (map fst cols) \<longrightarrow> (\<forall>(n, t) \<in> set cols. t \<in> canonical_types) \<longrightarrow>
      (\<exists>lt. sd_get_literal_type (StructuredDatasetT (sd_class_getitem (Some cols))) = Inr lt
         \<and> guess_python_type lt = Inr (StructuredDatasetT cols)))
   \<and> ((\<exists>(n, lt) \<in> set lcols. lt \<notin> six_simple_kinds) \<longrightarrow>
      guess_python_type (StructuredDatasetLT lcols) =
        Inl (ValueError ''Unknown structured dataset column type {literal_column}''))"
proof -
  have fwd: "\<exists>lt. sd_get_literal_type (StructuredDatasetT (sd_class_getitem (Some cols))) = Inr lt
         \<and> guess_python_type lt = Inr (StructuredDatasetT cols)"
    if d: "distinct (map fst cols)" and c: "\<forall>(n, t) \<in> set cols. t \<in> canonical_types"
  proof -
    have same: "sd_class_getitem (Some cols) = cols" by (cases cols) simp_all
    have conv: "convert_columns cols [] = Inr (map (\<lambda>(n, t). (n, the (supported_types t))) cols)"
      using convert_columns_canonical [OF c, of "[]"] by simp
    have inv: "guess_columns (map (\<lambda>(n, t). (n, the (supported_types t))) cols) [] = Inr cols"
      using guess_columns_canonical [OF c, of "[]"] d by simp
    show ?thesis
      by (simp add: sd_get_literal_type_def guess_python_type_def same conv inv)
  qed
  have bwd: "guess_python_type (StructuredDatasetLT lcols) =
        Inl (ValueError ''Unknown structured dataset column type {literal_column}'')"
    if "\<exists>(n, lt) \<in> set lcols. lt \<notin> six_simple_kinds"
    using guess_columns_unknown [OF that] by (simp add: guess_python_type_def)
  show ?thesis using fwd bwd by blast
qed

theorem guess_python_type_roundtrip_witness:
  "sd_get_literal_type
     (StructuredDatasetT [(''id'', PyInt), (''score'', PyFloat), (''label'', PyStr),
        (''ok'', PyBool), (''at'', PyDatetime), (''took'', PyTimedelta)]) =
     Inr (StructuredDatasetLT [(''id'', Simple INTEGER), (''score'', Simple FLOAT),
        (''label'', Simple STRING), (''ok'', Simple BOOLEAN), (''at'', Simple DATETIME),
        (''took'', Simple DURATION)])
   \<and> guess_python_type
       (StructuredDatasetLT [(''id'', Simple INTEGER), (''score'', Simple FLOAT),
          (''label'', Simple STRING), (''ok'', Simple BOOLEAN), (''at'', Simple DATETIME),
          (''took'', Simple DURATION)]) =
       Inr (StructuredDatasetT [(''id'', PyInt), (''score'', PyFloat), (''label'', PyStr),
          (''ok'', PyBool), (''at'', PyDatetime), (''took'', PyTimedelta)])
   \<and> guess_python_type
       (StructuredDatasetLT [(''id'', Simple INTEGER), (''tags'', CollectionType (Simple STRING))]) =
       Inl (ValueError ''Unknown structured dataset column type {literal_column}'')"
  using guess_python_type_roundtrip
    [of "[(''id'', PyInt), (''score'', PyFloat), (''label'', PyStr),
          (''ok'', PyBool), (''at'', PyDatetime), (''took'', PyTimedelta)]"
        "[(''id'', Simple INTEGER), (''tags'', CollectionType (Simple STRING))]"]
  by (simp add: canonical_types_def six_simple_kinds_def sd_get_literal_type_def)

end
